theory Spec2Isabelle
  imports Complex_Main
begin

section \<open>String and path primitives used by the loader\<close>

text \<open>
  The loader calls three string methods and four functions of Node's \<open>path\<close> module
  (POSIX flavour). They are library code, so they are written out here as list functions
  with the library's documented behaviour.
\<close>

text \<open>\<open>s.startsWith(p)\<close>\<close>

definition startsWith :: "string \<Rightarrow> string \<Rightarrow> bool" where
  "startsWith s p = (take (length p) s = p)"

text \<open>\<open>s.replace(pat, rep)\<close> with a string pattern: only the first occurrence is replaced.\<close>

fun replaceFirst :: "string \<Rightarrow> string \<Rightarrow> string \<Rightarrow> string" where
  "replaceFirst pat rep [] = (if pat = [] then rep else [])"
| "replaceFirst pat rep (c # cs) =
     (if startsWith (c # cs) pat then rep @ drop (length pat) (c # cs)
      else c # replaceFirst pat rep cs)"

text \<open>Splitting at \<open>/\<close> and joining with \<open>/\<close>.\<close>

fun splitSlash :: "string \<Rightarrow> string list" where
  "splitSlash [] = [[]]"
| "splitSlash (c # cs) =
     (if c = CHR ''/'' then [] # splitSlash cs
      else (case splitSlash cs of [] \<Rightarrow> [[c]] | s # ss \<Rightarrow> (c # s) # ss))"

fun joinSlash :: "string list \<Rightarrow> string" where
  "joinSlash [] = []"
| "joinSlash [s] = s"
| "joinSlash (s # t # ss) = s @ CHR ''/'' # joinSlash (t # ss)"

text \<open>
  \<open>normalizeString\<close> of Node's path module, on the segments of the path: empty segments
  and \<open>.\<close> are dropped, \<open>..\<close> removes the segment before it, and is kept only where
  nothing is left to remove and the path is relative (\<open>allowAboveRoot\<close>). The second argument is
  the stack of segments kept so far, last one first.
\<close>

fun normalizeSegments :: "bool \<Rightarrow> string list \<Rightarrow> string list \<Rightarrow> string list" where
  "normalizeSegments allowAboveRoot acc [] = rev acc"
| "normalizeSegments allowAboveRoot acc (s # ss) =
     (if s = [] \<or> s = ''.'' then normalizeSegments allowAboveRoot acc ss
      else if s = ''..'' then
        (case acc of
           [] \<Rightarrow> normalizeSegments allowAboveRoot (if allowAboveRoot then [''..''] else []) ss
         | t # ts \<Rightarrow>
             if t = ''..'' then normalizeSegments allowAboveRoot (if allowAboveRoot then ''..'' # acc else acc) ss
             else normalizeSegments allowAboveRoot ts ss)
      else normalizeSegments allowAboveRoot (s # acc) ss)"

text \<open>\<open>path.normalize\<close>\<close>

definition path_normalize :: "string \<Rightarrow> string" where
  "path_normalize p =
     (if p = [] then ''.''
      else
        let isAbsolute = (hd p = CHR ''/'');
            trailingSeparator = (last p = CHR ''/'');
            q = joinSlash (normalizeSegments (\<not> isAbsolute) [] (splitSlash p))
        in if q = [] then (if isAbsolute then ''/'' else if trailingSeparator then ''./'' else ''.'')
           else (if isAbsolute then ''/'' else []) @ q @ (if trailingSeparator then ''/'' else []))"

text \<open>\<open>path.join(a, b)\<close>: empty arguments are skipped, the rest is normalised.\<close>

definition path_join :: "string \<Rightarrow> string \<Rightarrow> string" where
  "path_join a b =
     (if a = [] \<and> b = [] then ''.''
      else if a = [] then path_normalize b
      else if b = [] then path_normalize a
      else path_normalize (a @ ''/'' @ b))"

text \<open>
  \<open>path.dirname\<close>: the scan runs from the end of the path down to index 1, skips trailing
  slashes and the last segment, and cuts at the slash before it. \<open>r2\<close> below is what is
  left of the reversed characters 1.. when the scan stops, starting with that slash.
\<close>

definition path_dirname :: "string \<Rightarrow> string" where
  "path_dirname p =
     (if p = [] then ''.''
      else
        let hasRoot = (hd p = CHR ''/'');
            r2 = dropWhile (\<lambda>c. c \<noteq> CHR ''/'') (dropWhile (\<lambda>c. c = CHR ''/'') (rev (tl p)))
        in if r2 = [] then (if hasRoot then ''/'' else ''.'')
           else if hasRoot \<and> length r2 = 1 then ''//''
           else hd p # rev (tl r2))"

text \<open>
  \<open>path.resolve(directory, file)\<close>: the arguments are taken from the right until an
  absolute path is built, the working directory \<open>cwd\<close> coming last; the result has no
  trailing slash.
\<close>

definition path_resolve :: "string \<Rightarrow> string \<Rightarrow> string \<Rightarrow> string" where
  "path_resolve cwd directory file =
     (let isAbs = (\<lambda>p. p \<noteq> [] \<and> hd p = CHR ''/'');
          p1 = file;
          p2 = (if isAbs p1 \<or> directory = [] then p1 else directory @ ''/'' @ p1);
          p3 = (if isAbs p2 then p2 else cwd @ ''/'' @ p2);
          q = joinSlash (normalizeSegments (\<not> isAbs p3) [] (splitSlash p3))
      in if isAbs p3 then CHR ''/'' # q else if q = [] then ''.'' else q)"

text \<open>
  \<open>path.parse(sourcePath).name.split('.')[0]\<close>: the last segment of the path up to its
  first dot.
\<close>

definition classNameOf :: "string \<Rightarrow> string" where
  "classNameOf sourcePath =
     (case filter (\<lambda>s. s \<noteq> []) (splitSlash sourcePath) of
        [] \<Rightarrow> []
      | segs \<Rightarrow> takeWhile (\<lambda>c. c \<noteq> CHR ''.'') (last segs))"

section \<open>Data model\<close>

text \<open>Version numbers are JavaScript numbers such as 1, 1.1 or 2; only their order is used.\<close>

type_synonym version = rat

text \<open>\<open>Icon = string | Themed<string>\<close>, the latter an object with a light and a dark side.\<close>

datatype icon = IconString string | Themed (light: string) (dark: string)

text \<open>
  The three kinds of object \<open>fixIconPaths\<close> accepts (\<open>INodeTypeDescription\<close>,
  \<open>INodeTypeBaseDescription\<close>, \<open>ICredentialType\<close>) share these fields; the records
  below extend this one.
\<close>

record iconHolder =
  name :: string
  icon :: "icon option"
  iconUrl :: "icon option"

record codexResources =
  primaryDocumentation :: "string list option"
  credentialDocumentation :: "string list option"

text \<open>\<open>CodexData\<close>, the codex attached to a description.\<close>

record codexData =
  categories :: "string list option"
  subcategories :: "(string \<times> string list) list option"
  codexAlias :: "string list option"
  resources :: "codexResources option"

text \<open>
  What \<open>module.require\<close> finds in a codex file (type \<open>Codex\<close>); a field the file leaves
  out is \<open>None\<close>.
\<close>

record codexFile =
  fileCategories :: "string list option"
  fileSubcategories :: "(string \<times> string list) list option"
  fileResources :: "codexResources option"
  fileAlias :: "string list option"

record nodeTypeBaseDescription = iconHolder +
  codex :: "codexData option"

record nodeCredentialDescription =
  credentialName :: string
  required :: "bool option"

text \<open>\<open>version: number | number[]\<close>\<close>

datatype versions = Single version | Multiple "version list"

record nodeTypeDescription = nodeTypeBaseDescription +
  version :: versions
  credentials :: "nodeCredentialDescription list option"
  loadOptionsMethods :: "string list option"

text \<open>
  \<open>INodeType\<close>: the description, the keys of \<open>methods.loadOptions\<close> where the node has
  them, whether the object has an own property \<open>executeSingle\<close>, and the name of its
  class (\<open>constructor.name\<close>).
\<close>

record nodeType =
  description :: nodeTypeDescription
  loadOptions :: "string list option"
  executeSingle :: bool
  nodeClassName :: string

text \<open>
  \<open>IVersionedNodeType\<close>. \<open>nodeVersions\<close> lists the object's entries in the order
  \<open>Object.values\<close> enumerates them, with distinct keys and one object per key.
\<close>

record versionedNodeType =
  baseDescription :: nodeTypeBaseDescription
  currentVersion :: version
  nodeVersions :: "(version \<times> nodeType) list"
  versionedClassName :: string

text \<open>A loaded node class: \<open>Versioned\<close> is the case \<open>'nodeVersions' in tempNode\<close>.\<close>

datatype node = Plain nodeType | Versioned versionedNodeType

text \<open>
  A credential's \<open>authenticate\<close>: a function, a generic description, or (only after
  serialisation) the empty object.
\<close>

datatype authenticate = AuthFunction | AuthGeneric string | AuthEmptyObject

record credentialType = iconHolder +
  extends :: "string list option"
  authenticate :: "authenticate option"
  credentialClassName :: string
  hasToJSON :: bool

text \<open>\<open>LoadedClass<T>\<close>, the entries of \<open>nodeTypes\<close> and \<open>credentialTypes\<close>.\<close>

record 'a loadedClass =
  loadedType :: 'a
  loadedFrom :: string

text \<open>\<open>LoadingDetails\<close>, the entries of \<open>known.nodes\<close>, and their extension for credentials.\<close>

record loadingDetails =
  className :: string
  sourcePath :: string

record credentialLoadingDetails = loadingDetails +
  knownExtends :: "string list option"
  supportedNodes :: "string list option"

record knownNodesAndCredentials =
  knownNodes :: "string \<rightharpoonup> loadingDetails"
  knownCredentials :: "string \<rightharpoonup> credentialLoadingDetails"

record loaderTypes =
  typesNodes :: "nodeTypeDescription list"
  typesCredentials :: "credentialType list"

text \<open>
  The fields of the abstract class \<open>DirectoryLoader\<close>. \<open>resolved\<close> is not a field of
  the class: it lists the files handed to the component resolver
  \<open>loadClassInIsolation\<close>, which the tests observe through the mock's call count.
\<close>

record directoryLoader =
  directory :: string
  excludeNodes :: "string list"
  includeNodes :: "string list"
  packageName :: string
  isLazyLoaded :: bool
  loadedNodes :: "(string \<times> version option) list"
  nodeTypes :: "string \<rightharpoonup> node loadedClass"
  credentialTypes :: "string \<rightharpoonup> credentialType loadedClass"
  known :: knownNodesAndCredentials
  types :: loaderTypes
  nodesByCredential :: "string \<rightharpoonup> string list"
  resolved :: "string list"

text \<open>\<open>package.json\<close>: the name and the optional \<open>n8n\<close> block.\<close>

record n8nBlock =
  n8nNodes :: "string list option"
  n8nCredentials :: "string list option"

record packageJson =
  jsonName :: string
  n8n :: "n8nBlock option"

record packageDirectoryLoader = directoryLoader +
  packageJson :: packageJson

text \<open>What the component resolver does for a file and class name.\<close>

datatype 'a resolution = Instance 'a | ThrowsTypeError | ThrowsOther string

text \<open>What \<open>readJSON\<close> meets: the parsed value, a failed read, or text that does not parse.\<close>

datatype 'a jsonFile = Parsed 'a | ReadFails | ParseFails

text \<open>
  Everything the loader reads from outside: the working directory, the component
  resolver, the codex files, the results of globbing, and the package's files.
\<close>

record world =
  cwd :: string
  loadNodeClass :: "string \<Rightarrow> string \<Rightarrow> node resolution"
  loadCredentialClass :: "string \<Rightarrow> string \<Rightarrow> credentialType resolution"
  requireCodex :: "string \<Rightarrow> codexFile option"
  glob :: "string \<Rightarrow> string \<Rightarrow> string list"
  packageJsonFile :: "packageJson jsonFile"
  knownNodesFile :: "(string \<rightharpoonup> loadingDetails) jsonFile"
  knownCredentialsFile :: "(string \<rightharpoonup> credentialLoadingDetails) jsonFile"
  typesNodesFile :: "nodeTypeDescription list jsonFile"
  typesCredentialsFile :: "credentialType list jsonFile"

datatype error =
    ClassNotFound string
  | ExecuteSingleRemoved string
  | TypeError
  | FailedToParseJSON string
  | ReadError string
  | Rethrown string

text \<open>
  A method either returns or throws; either way the object keeps the changes made so far.
\<close>

datatype 'a outcome = Done 'a | Threw error 'a

section \<open>DirectoryLoader\<close>

text \<open>
  Modelled from the spec: the constant \<open>CUSTOM_NODES_CATEGORY\<close> of \<open>Constants.ts\<close>,
  which is not among the sources; the spec calls it a fixed category tag.
\<close>

definition CUSTOM_NODES_CATEGORY :: string where
  "CUSTOM_NODES_CATEGORY = ''Custom Nodes''"

text \<open>The field initialisers and the constructor of \<open>DirectoryLoader\<close>.\<close>

definition newDirectoryLoader :: "string \<Rightarrow> string \<Rightarrow> string list \<Rightarrow> string list \<Rightarrow> directoryLoader" where
  "newDirectoryLoader pkg dir excl incl =
     \<lparr>directory = dir, excludeNodes = excl, includeNodes = incl, packageName = pkg,
      isLazyLoaded = False, loadedNodes = [], nodeTypes = Map.empty,
      credentialTypes = Map.empty,
      known = \<lparr>knownNodes = Map.empty, knownCredentials = Map.empty\<rparr>,
      types = \<lparr>typesNodes = [], typesCredentials = []\<rparr>,
      nodesByCredential = Map.empty, resolved = []\<rparr>"

definition reset :: "'a directoryLoader_scheme \<Rightarrow> 'a directoryLoader_scheme" where
  "reset s =
     s\<lparr>loadedNodes := [],
       nodeTypes := Map.empty,
       credentialTypes := Map.empty,
       known := \<lparr>knownNodes = Map.empty, knownCredentials = Map.empty\<rparr>,
       types := \<lparr>typesNodes = [], typesCredentials = []\<rparr>\<rparr>"

definition resolvePath :: "world \<Rightarrow> 'a directoryLoader_scheme \<Rightarrow> string \<Rightarrow> string" where
  "resolvePath w s file = path_resolve (cwd w) (directory s) file"

text \<open>
  \<open>loadClass\<close>: a \<open>TypeError\<close> of the resolver becomes the "class could not be found"
  error, any other error is rethrown as it is.
\<close>

definition loadClass ::
  "(string \<Rightarrow> string \<Rightarrow> 'c resolution) \<Rightarrow> world \<Rightarrow> 'a directoryLoader_scheme \<Rightarrow> string \<Rightarrow> error + 'c" where
  "loadClass resolver w s source =
     (let filePath = resolvePath w s source;
          symbol = classNameOf source
      in case resolver filePath symbol of
           Instance c \<Rightarrow> Inr c
         | ThrowsTypeError \<Rightarrow> Inl (ClassNotFound symbol)
         | ThrowsOther e \<Rightarrow> Inl (Rethrown e))"

text \<open>The serialisation hook attached to every credential.\<close>

definition toJSON :: "credentialType \<Rightarrow> credentialType" where
  "toJSON this =
     this\<lparr>authenticate :=
       (case authenticate this of Some AuthFunction \<Rightarrow> Some AuthEmptyObject | a \<Rightarrow> a)\<rparr>"

subsection \<open>Codex\<close>

text \<open>\<open>getCodex\<close>; \<open>None\<close> when the file is missing or has no \<open>resources\<close> (both throw).\<close>

definition getCodex :: "world \<Rightarrow> 'a directoryLoader_scheme \<Rightarrow> string \<Rightarrow> codexData option" where
  "getCodex w s filePath =
     (case requireCodex w (resolvePath w s (filePath @ ''on'')) of
        None \<Rightarrow> None
      | Some f \<Rightarrow>
          (case fileResources f of
             None \<Rightarrow> None
           | Some r \<Rightarrow>
               Some \<lparr>categories = fileCategories f,
                     subcategories = fileSubcategories f,
                     codexAlias = fileAlias f,
                     resources = Some \<lparr>primaryDocumentation = primaryDocumentation r,
                                       credentialDocumentation = credentialDocumentation r\<rparr>\<rparr>))"

text \<open>\<open>addCodex\<close>, on the description of the node it is given.\<close>

definition addCodex ::
  "world \<Rightarrow> 'a directoryLoader_scheme \<Rightarrow> 'b nodeTypeBaseDescription_scheme \<Rightarrow> string
     \<Rightarrow> 'b nodeTypeBaseDescription_scheme" where
  "addCodex w s d filePath =
     (let isCustom = (packageName s = ''CUSTOM'');
          declared = (if \<not> isCustom then codex d else None);
          found = (case declared of None \<Rightarrow> getCodex w s filePath | Some c \<Rightarrow> Some c)
      in case found of
           Some c \<Rightarrow>
             d\<lparr>codex := Some
                 (if isCustom
                  then c\<lparr>categories := Some
                         (case categories c of
                            Some cs \<Rightarrow> cs @ [CUSTOM_NODES_CATEGORY]
                          | None \<Rightarrow> [CUSTOM_NODES_CATEGORY])\<rparr>
                  else c)\<rparr>
         | None \<Rightarrow>
             if isCustom
             then d\<lparr>codex := Some \<lparr>categories = Some [CUSTOM_NODES_CATEGORY],
                                   subcategories = None, codexAlias = None, resources = None\<rparr>\<rparr>
             else d)"

definition addCodexNode :: "world \<Rightarrow> 'a directoryLoader_scheme \<Rightarrow> node \<Rightarrow> string \<Rightarrow> node" where
  "addCodexNode w s tempNode filePath =
     (case tempNode of
        Plain n \<Rightarrow> Plain (n\<lparr>description := addCodex w s (description n) filePath\<rparr>)
      | Versioned v \<Rightarrow> Versioned (v\<lparr>baseDescription := addCodex w s (baseDescription v) filePath\<rparr>))"

definition addLoadOptionsMethods :: "nodeType \<Rightarrow> nodeType" where
  "addLoadOptionsMethods n =
     (case loadOptions n of
        Some keys \<Rightarrow> n\<lparr>description := (description n)\<lparr>loadOptionsMethods := Some keys\<rparr>\<rparr>
      | None \<Rightarrow> n)"

subsection \<open>Icons\<close>

definition getIconPath :: "'a directoryLoader_scheme \<Rightarrow> string \<Rightarrow> string \<Rightarrow> string" where
  "getIconPath s i filePath =
     (let iconPath = path_join (path_dirname filePath) (replaceFirst ''file:'' [] i)
      in ''icons/'' @ packageName s @ ''/'' @ iconPath)"

text \<open>\<open>fixIconPaths\<close>; an empty string is falsy, so it is left alone like a missing icon.\<close>

definition fixIconPaths ::
  "'a directoryLoader_scheme \<Rightarrow> 'b iconHolder_scheme \<Rightarrow> string \<Rightarrow> 'b iconHolder_scheme" where
  "fixIconPaths s obj filePath =
     (case icon obj of
        None \<Rightarrow> obj
      | Some (IconString i) \<Rightarrow>
          if i = [] then obj
          else if startsWith i ''file:''
          then obj\<lparr>iconUrl := Some (IconString (getIconPath s i filePath)), icon := None\<rparr>
          else obj
      | Some (Themed l d) \<Rightarrow>
          if startsWith l ''file:'' \<and> startsWith d ''file:''
          then obj\<lparr>iconUrl := Some (Themed (getIconPath s l filePath) (getIconPath s d filePath)),
                   icon := None\<rparr>
          else obj)"

subsection \<open>Versions and credentials of a node\<close>

text \<open>lodash's \<open>uniqBy\<close>: the first element of each key is kept, in order.\<close>

fun uniqByFrom :: "('a \<Rightarrow> 'k) \<Rightarrow> 'k list \<Rightarrow> 'a list \<Rightarrow> 'a list" where
  "uniqByFrom f seen [] = []"
| "uniqByFrom f seen (x # xs) =
     (if f x \<in> set seen then uniqByFrom f seen xs else x # uniqByFrom f (f x # seen) xs)"

definition uniqBy :: "('a \<Rightarrow> 'k) \<Rightarrow> 'a list \<Rightarrow> 'a list" where
  "uniqBy f xs = uniqByFrom f [] xs"

definition getCredentialsForNode :: "node \<Rightarrow> nodeCredentialDescription list" where
  "getCredentialsForNode object =
     (case object of
        Versioned v \<Rightarrow>
          uniqBy credentialName
            (concat (map (\<lambda>(k, ver). case credentials (description ver) of None \<Rightarrow> [] | Some cs \<Rightarrow> cs)
                         (nodeVersions v)))
      | Plain n \<Rightarrow> (case credentials (description n) of None \<Rightarrow> [] | Some cs \<Rightarrow> cs))"

text \<open>
  The key \<open>getVersionedNodeTypeAll\<close> hands to \<open>uniqBy\<close>: \<open>version.join(',')\<close> or
  \<open>version.toString()\<close>, which agree on a number and the list holding just that number.
\<close>

definition versionKey :: "nodeType \<Rightarrow> version list" where
  "versionKey n = (case version (description n) of Single x \<Rightarrow> [x] | Multiple xs \<Rightarrow> xs)"

text \<open>
  \<open>getVersionedNodeTypeAll\<close> writes the node's name and codex into every version's
  description; \<open>syncVersions\<close> is the node after these writes.
\<close>

definition syncVersions :: "versionedNodeType \<Rightarrow> versionedNodeType" where
  "syncVersions v =
     v\<lparr>nodeVersions :=
         map (\<lambda>(k, element).
                (k, element\<lparr>description :=
                      (description element)\<lparr>name := name (baseDescription v),
                                            codex := codex (baseDescription v)\<rparr>\<rparr>))
             (nodeVersions v)\<rparr>"

definition getVersionedNodeTypeAll :: "node \<Rightarrow> nodeType list" where
  "getVersionedNodeTypeAll object =
     (case object of
        Versioned v \<Rightarrow> uniqBy versionKey (rev (map snd (nodeVersions (syncVersions v))))
      | Plain n \<Rightarrow> [n])"

subsection \<open>Loading one file\<close>

definition nodeName :: "node \<Rightarrow> string" where
  "nodeName tempNode =
     (case tempNode of Plain n \<Rightarrow> name (description n) | Versioned v \<Rightarrow> name (baseDescription v))"

definition constructorName :: "node \<Rightarrow> string" where
  "constructorName tempNode =
     (case tempNode of Plain n \<Rightarrow> nodeClassName n | Versioned v \<Rightarrow> versionedClassName v)"

text \<open>The loop of \<open>loadNodeFromFile\<close> that extends the reverse index.\<close>

fun addNodesByCredential ::
  "string \<Rightarrow> nodeCredentialDescription list \<Rightarrow> (string \<rightharpoonup> string list) \<Rightarrow> (string \<rightharpoonup> string list)" where
  "addNodesByCredential nodeType [] m = m"
| "addNodesByCredential nodeType (c # cs) m =
     addNodesByCredential nodeType cs
       (m(credentialName c \<mapsto> (case m (credentialName c) of None \<Rightarrow> [] | Some ns \<Rightarrow> ns) @ [nodeType]))"

text \<open>
  The second half of \<open>loadNodeFromFile\<close>, from the write to \<open>known.nodes\<close> on: the
  records of an accepted node. The node kept in \<open>nodeTypes\<close> is the object that
  \<open>getVersionedNodeTypeAll\<close> has written to.
\<close>

definition recordNode ::
  "'a directoryLoader_scheme \<Rightarrow> node \<Rightarrow> string \<Rightarrow> string \<Rightarrow> version option \<Rightarrow> 'a directoryLoader_scheme" where
  "recordNode s tempNode filePath nodeType nodeVersion =
     s\<lparr>known := (known s)\<lparr>knownNodes :=
          (knownNodes (known s))(nodeType \<mapsto>
             \<lparr>className = constructorName tempNode, sourcePath = filePath\<rparr>)\<rparr>,
       nodeTypes := (nodeTypes s)(nodeType \<mapsto>
          \<lparr>loadedType = (case tempNode of Versioned v \<Rightarrow> Versioned (syncVersions v) | Plain n \<Rightarrow> Plain n),
           loadedFrom = filePath\<rparr>),
       loadedNodes := loadedNodes s @ [(nodeType, nodeVersion)],
       types := (types s)\<lparr>typesNodes :=
          typesNodes (types s) @ map description (getVersionedNodeTypeAll tempNode)\<rparr>,
       nodesByCredential :=
          addNodesByCredential nodeType (getCredentialsForNode tempNode) (nodesByCredential s)\<rparr>"

text \<open>
  The two loops of \<open>loadNodeFromFile\<close> over \<open>Object.values(tempNode.nodeVersions)\<close>:
  the first fixes the icon of every version, the second adds its load-options methods.
\<close>

definition fixVersionIcons ::
  "'a directoryLoader_scheme \<Rightarrow> versionedNodeType \<Rightarrow> string \<Rightarrow> versionedNodeType" where
  "fixVersionIcons s v filePath =
     v\<lparr>nodeVersions :=
         map (\<lambda>(k, versionNode).
                (k, versionNode\<lparr>description := fixIconPaths s (description versionNode) filePath\<rparr>))
             (nodeVersions v)\<rparr>"

definition addVersionLoadOptions :: "versionedNodeType \<Rightarrow> versionedNodeType" where
  "addVersionLoadOptions v =
     v\<lparr>nodeVersions := map (\<lambda>(k, ver). (k, addLoadOptionsMethods ver)) (nodeVersions v)\<rparr>"

text \<open>
  \<open>addCodex(currentVersionNode, filePath)\<close> writes to the object stored under the
  current version; this is the versioned node after that write.
\<close>

definition addCurrentCodex ::
  "world \<Rightarrow> 'a directoryLoader_scheme \<Rightarrow> versionedNodeType \<Rightarrow> string \<Rightarrow> versionedNodeType" where
  "addCurrentCodex w s v filePath =
     v\<lparr>nodeVersions :=
         map (\<lambda>(k, ver).
                if k = currentVersion v
                then (k, ver\<lparr>description := addCodex w s (description ver) filePath\<rparr>)
                else (k, ver))
             (nodeVersions v)\<rparr>"

text \<open>
  \<open>loadNodeFromFile\<close>. Reading a version that \<open>nodeVersions\<close> does not hold gives
  \<open>undefined\<close>, on which \<open>addCodex\<close> throws a \<open>TypeError\<close>.
\<close>

definition loadNodeFromFile ::
  "world \<Rightarrow> 'a directoryLoader_scheme \<Rightarrow> string \<Rightarrow> 'a directoryLoader_scheme outcome" where
  "loadNodeFromFile w s0 filePath =
     (let s = s0\<lparr>resolved := resolved s0 @ [filePath]\<rparr> in
      case loadClass (loadNodeClass w) w s0 filePath of
        Inl e \<Rightarrow> Threw e s
      | Inr loaded \<Rightarrow>
          let tempNode = addCodexNode w s loaded filePath;
              nodeType = nodeName tempNode;
              fullNodeType = packageName s @ ''.'' @ nodeType
          in if includeNodes s \<noteq> [] \<and> fullNodeType \<notin> set (includeNodes s) then Done s
             else if fullNodeType \<in> set (excludeNodes s) then Done s
             else
               (case tempNode of
                  Versioned v \<Rightarrow>
                    let v1 = v\<lparr>baseDescription := fixIconPaths s (baseDescription v) filePath\<rparr>;
                        v2 = fixVersionIcons s v1 filePath;
                        v3 = addVersionLoadOptions v2
                    in (case map_of (nodeVersions v3) (currentVersion v3) of
                          None \<Rightarrow> Threw TypeError s
                        | Some cur \<Rightarrow>
                            let currentVersionNode =
                                  cur\<lparr>description := addCodex w s (description cur) filePath\<rparr>;
                                v4 = addCurrentCodex w s v3 filePath
                            in if executeSingle currentVersionNode
                               then Threw (ExecuteSingleRemoved fullNodeType) s
                               else Done (recordNode s (Versioned v4) filePath nodeType
                                            (Some (currentVersion v4))))
                | Plain n \<Rightarrow>
                    let n1 = n\<lparr>description := fixIconPaths s (description n) filePath\<rparr>;
                        n2 = addLoadOptionsMethods n1;
                        nodeVersion =
                          (case version (description n2) of
                             Multiple vs \<Rightarrow> (if vs = [] then None else Some (last vs))
                           | Single x \<Rightarrow> Some x)
                    in Done (recordNode s (Plain n2) filePath nodeType nodeVersion)))"

definition loadCredentialFromFile ::
  "world \<Rightarrow> 'a directoryLoader_scheme \<Rightarrow> string \<Rightarrow> 'a directoryLoader_scheme outcome" where
  "loadCredentialFromFile w s0 filePath =
     (let s = s0\<lparr>resolved := resolved s0 @ [filePath]\<rparr> in
      case loadClass (loadCredentialClass w) w s0 filePath of
        Inl e \<Rightarrow> Threw e s
      | Inr loaded \<Rightarrow>
          let tempCredential = fixIconPaths s (loaded\<lparr>hasToJSON := True\<rparr>) filePath;
              credentialType = name tempCredential
          in Done
               (s\<lparr>known := (known s)\<lparr>knownCredentials :=
                     (knownCredentials (known s))(credentialType \<mapsto>
                        \<lparr>className = credentialClassName tempCredential,
                         sourcePath = filePath,
                         knownExtends = extends tempCredential,
                         supportedNodes = nodesByCredential s credentialType\<rparr>)\<rparr>,
                  credentialTypes := (credentialTypes s)(credentialType \<mapsto>
                     \<lparr>loadedType = tempCredential, loadedFrom = filePath\<rparr>),
                  types := (types s)\<lparr>typesCredentials :=
                     typesCredentials (types s) @ [tempCredential]\<rparr>\<rparr>))"

subsection \<open>The three loaders\<close>

text \<open>A \<open>for\<close> loop over files: the first throw ends it.\<close>

fun forEachFile :: "('s \<Rightarrow> string \<Rightarrow> 's outcome) \<Rightarrow> 's \<Rightarrow> string list \<Rightarrow> 's outcome" where
  "forEachFile f s [] = Done s"
| "forEachFile f s (p # ps) =
     (case f s p of Done s' \<Rightarrow> forEachFile f s' ps | Threw e s' \<Rightarrow> Threw e s')"

definition newCustomDirectoryLoader :: "string \<Rightarrow> string list \<Rightarrow> string list \<Rightarrow> directoryLoader" where
  "newCustomDirectoryLoader dir excl incl = newDirectoryLoader ''CUSTOM'' dir excl incl"

text \<open>\<open>CustomDirectoryLoader.loadAll\<close>\<close>

definition customLoadAll :: "world \<Rightarrow> directoryLoader \<Rightarrow> directoryLoader outcome" where
  "customLoadAll w s =
     (case forEachFile (loadNodeFromFile w) s (glob w ''**/*.node.js'' (directory s)) of
        Threw e s1 \<Rightarrow> Threw e s1
      | Done s1 \<Rightarrow>
          forEachFile (loadCredentialFromFile w) s1 (glob w ''**/*.credentials.js'' (directory s1)))"

text \<open>
  \<open>readJSONSync\<close> and \<open>readJSON\<close>: a failed read throws the file system's error, text
  that does not parse throws "Failed to parse JSON".
\<close>

definition readJSON :: "world \<Rightarrow> string \<Rightarrow> string \<Rightarrow> 'v jsonFile \<Rightarrow> error + 'v" where
  "readJSON w dir file content =
     (case content of
        Parsed v \<Rightarrow> Inr v
      | ReadFails \<Rightarrow> Inl (ReadError (path_resolve (cwd w) dir file))
      | ParseFails \<Rightarrow> Inl (FailedToParseJSON (path_resolve (cwd w) dir file)))"

text \<open>
  The constructor of \<open>PackageDirectoryLoader\<close> (and of the lazy loader, which adds no
  field): \<open>package.json\<close> is read when the object is built, and names the package.
\<close>

definition newPackageDirectoryLoader ::
  "world \<Rightarrow> string \<Rightarrow> string list \<Rightarrow> string list \<Rightarrow> error + packageDirectoryLoader" where
  "newPackageDirectoryLoader w dir excl incl =
     (case readJSON w dir ''package.json'' (packageJsonFile w) of
        Inl e \<Rightarrow> Inl e
      | Inr json \<Rightarrow>
          Inr (directoryLoader.extend (newDirectoryLoader (jsonName json) dir excl incl)
                 (packageDirectoryLoader.fields json)))"

text \<open>\<open>PackageDirectoryLoader.loadAll\<close>\<close>

definition packageLoadAll ::
  "world \<Rightarrow> 'a packageDirectoryLoader_scheme \<Rightarrow> 'a packageDirectoryLoader_scheme outcome" where
  "packageLoadAll w s =
     (case n8n (packageJson s) of
        None \<Rightarrow> Done s
      | Some block \<Rightarrow>
          (case (case n8nNodes block of
                   Some nodePaths \<Rightarrow> forEachFile (loadNodeFromFile w) s nodePaths
                 | None \<Rightarrow> Done s) of
             Threw e s1 \<Rightarrow> Threw e s1
           | Done s1 \<Rightarrow>
               (case n8nCredentials block of
                  Some credentialPaths \<Rightarrow> forEachFile (loadCredentialFromFile w) s1 credentialPaths
                | None \<Rightarrow> Done s1)))"

text \<open>The include and exclude filters of the lazy loader.\<close>

definition lazyInclude :: "'a directoryLoader_scheme \<Rightarrow> 'a directoryLoader_scheme" where
  "lazyInclude s =
     (if includeNodes s \<noteq> [] then
        let allowedNodes =
              fold (\<lambda>nodeName' allowed.
                      case knownNodes (known s) nodeName' of
                        Some details \<Rightarrow> allowed(nodeName' \<mapsto> details)
                      | None \<Rightarrow> allowed)
                   (includeNodes s) Map.empty
        in s\<lparr>known := (known s)\<lparr>knownNodes := allowedNodes\<rparr>,
             types := (types s)\<lparr>typesNodes :=
                filter (\<lambda>nodeType. name nodeType \<in> set (includeNodes s)) (typesNodes (types s))\<rparr>\<rparr>
      else s)"

definition lazyExclude :: "'a directoryLoader_scheme \<Rightarrow> 'a directoryLoader_scheme" where
  "lazyExclude s =
     (if excludeNodes s \<noteq> [] then
        s\<lparr>known := (known s)\<lparr>knownNodes :=
               fold (\<lambda>nodeName' m. m(nodeName' := None)) (excludeNodes s) (knownNodes (known s))\<rparr>,
          types := (types s)\<lparr>typesNodes :=
               filter (\<lambda>nodeType. name nodeType \<notin> set (excludeNodes s)) (typesNodes (types s))\<rparr>\<rparr>
      else s)"

text \<open>
  The \<open>try\<close> block of \<open>LazyPackageDirectoryLoader.loadAll\<close>: each read is assigned to its
  field before the next one starts, so a throw leaves the earlier assignments in place.
\<close>

definition lazyTry ::
  "world \<Rightarrow> 'a packageDirectoryLoader_scheme \<Rightarrow> 'a packageDirectoryLoader_scheme outcome" where
  "lazyTry w s =
     (case readJSON w (directory s) ''dist/known/nodes.json'' (knownNodesFile w) of
        Inl e \<Rightarrow> Threw e s
      | Inr kn \<Rightarrow>
          let s1 = s\<lparr>known := (known s)\<lparr>knownNodes := kn\<rparr>\<rparr> in
          (case readJSON w (directory s) ''dist/known/credentials.json'' (knownCredentialsFile w) of
             Inl e \<Rightarrow> Threw e s1
           | Inr kc \<Rightarrow>
               let s2 = s1\<lparr>known := (known s1)\<lparr>knownCredentials := kc\<rparr>\<rparr> in
               (case readJSON w (directory s) ''dist/types/nodes.json'' (typesNodesFile w) of
                  Inl e \<Rightarrow> Threw e s2
                | Inr tn \<Rightarrow>
                    let s3 = s2\<lparr>types := (types s2)\<lparr>typesNodes := tn\<rparr>\<rparr> in
                    (case readJSON w (directory s) ''dist/types/credentials.json''
                            (typesCredentialsFile w) of
                       Inl e \<Rightarrow> Threw e s3
                     | Inr tc \<Rightarrow>
                         let s4 = s3\<lparr>types := (types s3)\<lparr>typesCredentials := tc\<rparr>\<rparr>
                         in Done ((lazyExclude (lazyInclude s4))\<lparr>isLazyLoaded := True\<rparr>)))))"

text \<open>\<open>LazyPackageDirectoryLoader.loadAll\<close>: the \<open>catch\<close> runs the eager \<open>loadAll\<close>.\<close>

definition lazyLoadAll ::
  "world \<Rightarrow> 'a packageDirectoryLoader_scheme \<Rightarrow> 'a packageDirectoryLoader_scheme outcome" where
  "lazyLoadAll w s =
     (case lazyTry w s of
        Done s' \<Rightarrow> Done s'
      | Threw e s' \<Rightarrow> packageLoadAll w s')"

section \<open>Notions used to state the properties\<close>

text \<open>The object as a call leaves it, whether the call returned or threw.\<close>

primrec stateOf :: "'a outcome \<Rightarrow> 'a" where
  "stateOf (Done s) = s"
| "stateOf (Threw e s) = s"

primrec returns :: "'a outcome \<Rightarrow> bool" where
  "returns (Done s) = True"
| "returns (Threw e s) = False"

primrec isParsed :: "'a jsonFile \<Rightarrow> bool" where
  "isParsed (Parsed v) = True"
| "isParsed ReadFails = False"
| "isParsed ParseFails = False"

text \<open>
  The filter as the specification words it, on a bare name: with a non-empty include
  list the fully-qualified name must be in it, and it must not be in the exclude list.
\<close>

definition kept :: "'a directoryLoader_scheme \<Rightarrow> string \<Rightarrow> bool" where
  "kept s bare =
     ((includeNodes s = [] \<or> packageName s @ ''.'' @ bare \<in> set (includeNodes s)) \<and>
      packageName s @ ''.'' @ bare \<notin> set (excludeNodes s))"

text \<open>
  The nodes of a list of files that the resolver loads and the filter keeps, in the
  order of the files.
\<close>

definition acceptedNodes :: "world \<Rightarrow> 'a directoryLoader_scheme \<Rightarrow> string list \<Rightarrow> node list" where
  "acceptedNodes w s ps =
     List.map_filter
       (\<lambda>p. case loadClass (loadNodeClass w) w s p of
               Inr loaded \<Rightarrow> if kept s (nodeName loaded) then Some loaded else None
             | Inl e \<Rightarrow> None)
       ps"

text \<open>
  The credential names a node declares: those in the \<open>credentials\<close> list of its
  description, for a versioned node in the lists of the descriptions of its versions.
\<close>

definition declaredCredentials :: "node \<Rightarrow> string list" where
  "declaredCredentials tempNode =
     (case tempNode of
        Plain n \<Rightarrow>
          map credentialName (case credentials (description n) of None \<Rightarrow> [] | Some cs \<Rightarrow> cs)
      | Versioned v \<Rightarrow>
          concat (map (\<lambda>(k, ver).
                         map credentialName
                           (case credentials (description ver) of None \<Rightarrow> [] | Some cs \<Rightarrow> cs))
                      (nodeVersions v)))"

definition declares :: "node \<Rightarrow> string \<Rightarrow> bool" where
  "declares tempNode c = (c \<in> set (declaredCredentials tempNode))"

text \<open>
  What the loop at the end of \<open>loadNodeFromFile\<close> appends to the list of credential
  \<open>c\<close> over a list of nodes: the name of each node, once for every credential description
  named \<open>c\<close> that \<open>getCredentialsForNode\<close> returns for it.
\<close>

definition pushedNodes :: "string \<Rightarrow> node list \<Rightarrow> string list" where
  "pushedNodes c nodes =
     concat (map (\<lambda>tempNode.
                    map (\<lambda>credential. nodeName tempNode)
                        (filter (\<lambda>credential. credentialName credential = c)
                                (getCredentialsForNode tempNode)))
                 nodes)"

text \<open>The node files and credential files a package lists.\<close>

definition listedNodes :: "packageJson \<Rightarrow> string list" where
  "listedNodes json =
     (case n8n json of
        None \<Rightarrow> []
      | Some block \<Rightarrow> (case n8nNodes block of None \<Rightarrow> [] | Some ps \<Rightarrow> ps))"

definition listedCredentials :: "packageJson \<Rightarrow> string list" where
  "listedCredentials json =
     (case n8n json of
        None \<Rightarrow> []
      | Some block \<Rightarrow> (case n8nCredentials block of None \<Rightarrow> [] | Some ps \<Rightarrow> ps))"

text \<open>
  The shape both eager loaders share: the node files in order, then the credential
  files in order, ending at the first throw.
\<close>

definition eagerLoad ::
  "world \<Rightarrow> 'a directoryLoader_scheme \<Rightarrow> string list \<Rightarrow> string list \<Rightarrow> 'a directoryLoader_scheme outcome" where
  "eagerLoad w s nodePaths credentialPaths =
     (case forEachFile (loadNodeFromFile w) s nodePaths of
        Threw e s1 \<Rightarrow> Threw e s1
      | Done s1 \<Rightarrow> forEachFile (loadCredentialFromFile w) s1 credentialPaths)"

text \<open>The list kept for a credential in the reverse index, empty when there is none.\<close>

definition entries :: "(string \<rightharpoonup> string list) \<Rightarrow> string \<Rightarrow> string list" where
  "entries m c = (case m c of None \<Rightarrow> [] | Some ns \<Rightarrow> ns)"


section \<open>The fixtures of the test suite\<close>

text \<open>\<open>createNode\<close> and \<open>createCredential\<close> of \<open>DirectoryLoader.test.ts\<close>.\<close>

definition createNode :: "string \<Rightarrow> string option \<Rightarrow> nodeType" where
  "createNode n credential =
     \<lparr>description =
        \<lparr>name = n, icon = Some (IconString (''file:'' @ n @ ''.svg'')), iconUrl = None,
         codex = None, version = Single 1,
         credentials =
           Some (case credential of
                   Some c \<Rightarrow> [\<lparr>credentialName = c, required = None\<rparr>]
                 | None \<Rightarrow> []),
         loadOptionsMethods = None\<rparr>,
      loadOptions = None, executeSingle = False, nodeClassName = ''Object''\<rparr>"

definition createCredential :: "string \<Rightarrow> credentialType" where
  "createCredential n =
     \<lparr>name = n, icon = Some (IconString (''file:'' @ n @ ''.svg'')), iconUrl = None,
      extends = None, authenticate = None, credentialClassName = ''Object'',
      hasToJSON = False\<rparr>"

text \<open>
  The mocks of the test suite: the resolver knows three classes, globbing finds two
  node files and one credential file, \<open>package.json\<close> lists the same three files, and
  there is no codex file and no manifest.
\<close>

definition testWorld :: world where
  "testWorld =
     \<lparr>cwd = ''/'',
      loadNodeClass = (\<lambda>file symbol.
         if symbol = ''Node1'' then Instance (Plain (createNode ''node1'' (Some ''credential1'')))
         else if symbol = ''Node2'' then Instance (Plain (createNode ''node2'' None))
         else ThrowsOther (symbol @ '' is invalid'')),
      loadCredentialClass = (\<lambda>file symbol.
         if symbol = ''Credential1'' then Instance (createCredential ''credential1'')
         else ThrowsOther (symbol @ '' is invalid'')),
      requireCodex = (\<lambda>file. None),
      glob = (\<lambda>pattern dir.
         if pattern = ''**/*.node.js''
         then [''dist/Node1/Node1.node.js'', ''dist/Node2/Node2.node.js'']
         else [''dist/Credential1.js'']),
      packageJsonFile = Parsed
        \<lparr>jsonName = ''n8n-nodes-testing'',
         n8n = Some \<lparr>n8nNodes = Some [''dist/Node1/Node1.node.js'', ''dist/Node2/Node2.node.js''],
                     n8nCredentials = Some [''dist/Credential1.js'']\<rparr>\<rparr>,
      knownNodesFile = ReadFails,
      knownCredentialsFile = ReadFails,
      typesNodesFile = ReadFails,
      typesCredentialsFile = ReadFails\<rparr>"

text \<open>The same package with the four manifest files a build writes for it.\<close>

definition manifestWorld :: world where
  "manifestWorld =
     testWorld
       \<lparr>knownNodesFile := Parsed
          [''node1'' \<mapsto> \<lparr>className = ''Node1'', sourcePath = ''dist/Node1/Node1.node.js''\<rparr>,
           ''node2'' \<mapsto> \<lparr>className = ''Node2'', sourcePath = ''dist/Node2/Node2.node.js''\<rparr>],
        knownCredentialsFile := Parsed
          [''credential1'' \<mapsto>
             \<lparr>className = ''Credential1'', sourcePath = ''dist/Credential1.js'',
              knownExtends = None, supportedNodes = Some [''node1'']\<rparr>],
        typesNodesFile := Parsed
          [(description (createNode ''node1'' (Some ''credential1'')))
             \<lparr>icon := None,
              iconUrl := Some (IconString ''icons/n8n-nodes-testing/dist/Node1/node1.svg'')\<rparr>,
           (description (createNode ''node2'' None))
             \<lparr>icon := None,
              iconUrl := Some (IconString ''icons/n8n-nodes-testing/dist/Node2/node2.svg'')\<rparr>],
        typesCredentialsFile := Parsed
          [(createCredential ''credential1'')
             \<lparr>icon := None,
              iconUrl := Some (IconString ''icons/n8n-nodes-testing/dist/credential1.svg'')\<rparr>]\<rparr>"

text \<open>The same package when the last of the four manifest files is missing.\<close>

definition partialWorld :: world where
  "partialWorld = manifestWorld\<lparr>typesCredentialsFile := ReadFails\<rparr>"

text \<open>The files of the test suite after \<open>node1\<close> has stopped declaring its credential.\<close>

definition undeclaringWorld :: world where
  "undeclaringWorld =
     testWorld
       \<lparr>loadNodeClass := (\<lambda>file symbol.
          if symbol = ''Node1'' then Instance (Plain (createNode ''node1'' None))
          else loadNodeClass testWorld file symbol)\<rparr>"

text \<open>A world whose resolver returns one given node for every file.\<close>

definition worldOf :: "node \<Rightarrow> world" where
  "worldOf tempNode = testWorld\<lparr>loadNodeClass := (\<lambda>file symbol. Instance tempNode)\<rparr>"


text \<open>The loaders the test suite builds.\<close>

definition testCustomLoader :: "string list \<Rightarrow> string list \<Rightarrow> directoryLoader" where
  "testCustomLoader excl incl = newCustomDirectoryLoader ''/not/a/real/path'' excl incl"

definition testPackageLoader :: "string list \<Rightarrow> string list \<Rightarrow> packageDirectoryLoader" where
  "testPackageLoader excl incl =
     directoryLoader.extend
       (newDirectoryLoader ''n8n-nodes-testing'' ''/not/a/real/path'' excl incl)
       (packageDirectoryLoader.fields
          \<lparr>jsonName = ''n8n-nodes-testing'',
           n8n = Some \<lparr>n8nNodes = Some [''dist/Node1/Node1.node.js'', ''dist/Node2/Node2.node.js''],
                       n8nCredentials = Some [''dist/Credential1.js'']\<rparr>\<rparr>)"

text \<open>The test suite's \<open>node1\<close> with a given \<open>version\<close>.\<close>

definition nodeWithVersions :: "versions \<Rightarrow> nodeType" where
  "nodeWithVersions v =
     (createNode ''node1'' None)\<lparr>description := (description (createNode ''node1'' None))\<lparr>version := v\<rparr>\<rparr>"


section \<open>What each method leaves unchanged\<close>

lemma reset_fields:
  "loadedNodes (reset s) = [] \<and> nodeTypes (reset s) = Map.empty \<and>
   credentialTypes (reset s) = Map.empty \<and>
   known (reset s) = \<lparr>knownNodes = Map.empty, knownCredentials = Map.empty\<rparr> \<and>
   types (reset s) = \<lparr>typesNodes = [], typesCredentials = []\<rparr> \<and>
   nodesByCredential (reset s) = nodesByCredential s \<and>
   isLazyLoaded (reset s) = isLazyLoaded s"
  by (simp add: reset_def)

section \<open>Paths\<close>



lemma splitSlash_not_Nil: "splitSlash p \<noteq> []"
  by (induction p) (auto split: list.splits)











section \<open>Icons\<close>




section \<open>The lazy loader\<close>

lemma recordNode_frame:
  "directory (recordNode s t p n v) = directory s \<and>
   excludeNodes (recordNode s t p n v) = excludeNodes s \<and>
   includeNodes (recordNode s t p n v) = includeNodes s \<and>
   packageName (recordNode s t p n v) = packageName s \<and>
   isLazyLoaded (recordNode s t p n v) = isLazyLoaded s \<and>
   credentialTypes (recordNode s t p n v) = credentialTypes s \<and>
   knownCredentials (known (recordNode s t p n v)) = knownCredentials (known s) \<and>
   typesCredentials (types (recordNode s t p n v)) = typesCredentials (types s) \<and>
   resolved (recordNode s t p n v) = resolved s"
  by (simp add: recordNode_def)

lemma loadNodeFromFile_frame:
  "directory (stateOf (loadNodeFromFile w s p)) = directory s \<and>
   excludeNodes (stateOf (loadNodeFromFile w s p)) = excludeNodes s \<and>
   includeNodes (stateOf (loadNodeFromFile w s p)) = includeNodes s \<and>
   packageName (stateOf (loadNodeFromFile w s p)) = packageName s \<and>
   isLazyLoaded (stateOf (loadNodeFromFile w s p)) = isLazyLoaded s \<and>
   credentialTypes (stateOf (loadNodeFromFile w s p)) = credentialTypes s \<and>
   knownCredentials (known (stateOf (loadNodeFromFile w s p))) = knownCredentials (known s) \<and>
   typesCredentials (types (stateOf (loadNodeFromFile w s p))) = typesCredentials (types s) \<and>
   resolved (stateOf (loadNodeFromFile w s p)) = resolved s @ [p]"
  by (simp add: loadNodeFromFile_def Let_def recordNode_frame
           split: sum.splits node.splits option.splits)

lemma loadCredentialFromFile_frame:
  "directory (stateOf (loadCredentialFromFile w s p)) = directory s \<and>
   excludeNodes (stateOf (loadCredentialFromFile w s p)) = excludeNodes s \<and>
   includeNodes (stateOf (loadCredentialFromFile w s p)) = includeNodes s \<and>
   packageName (stateOf (loadCredentialFromFile w s p)) = packageName s \<and>
   isLazyLoaded (stateOf (loadCredentialFromFile w s p)) = isLazyLoaded s \<and>
   nodeTypes (stateOf (loadCredentialFromFile w s p)) = nodeTypes s \<and>
   loadedNodes (stateOf (loadCredentialFromFile w s p)) = loadedNodes s \<and>
   knownNodes (known (stateOf (loadCredentialFromFile w s p))) = knownNodes (known s) \<and>
   typesNodes (types (stateOf (loadCredentialFromFile w s p))) = typesNodes (types s) \<and>
   nodesByCredential (stateOf (loadCredentialFromFile w s p)) = nodesByCredential s \<and>
   resolved (stateOf (loadCredentialFromFile w s p)) = resolved s @ [p]"
  by (simp add: loadCredentialFromFile_def Let_def split: sum.splits)

lemma forEachFile_frame:
  assumes "\<And>s p. g (stateOf (f s p)) = g s"
  shows "g (stateOf (forEachFile f s ps)) = g s"
proof (induction ps arbitrary: s)
  case Nil
  show ?case by simp
next
  case (Cons p ps)
  show ?case
  proof (cases "f s p")
    case (Done s')
    with assms [of s p] Cons.IH [of s'] show ?thesis by simp
  next
    case (Threw e s')
    with assms [of s p] show ?thesis by simp
  qed
qed

lemma packageLoadAll_isLazyLoaded:
  "isLazyLoaded (stateOf (packageLoadAll w s)) = isLazyLoaded s"
proof -
  have n: "\<And>t ps. isLazyLoaded (stateOf (forEachFile (loadNodeFromFile w) t ps)) = isLazyLoaded t"
    by (rule forEachFile_frame) (simp add: loadNodeFromFile_frame)
  have c: "\<And>t ps. isLazyLoaded (stateOf (forEachFile (loadCredentialFromFile w) t ps)) = isLazyLoaded t"
    by (rule forEachFile_frame) (simp add: loadCredentialFromFile_frame)
  show ?thesis
  proof (cases "n8n (packageJson s)")
    case None
    then show ?thesis by (simp add: packageLoadAll_def)
  next
    case (Some block)
    define r where "r = (case n8nNodes block of
                   Some nodePaths \<Rightarrow> forEachFile (loadNodeFromFile w) s nodePaths
                 | None \<Rightarrow> Done s)"
    have r: "isLazyLoaded (stateOf r) = isLazyLoaded s"
      unfolding r_def using n [of s] by (simp split: option.splits)
    show ?thesis
    proof (cases r)
      case (Done s1)
      with r Some c [of s1] show ?thesis
        by (simp add: packageLoadAll_def r_def [symmetric] split: option.splits)
    next
      case (Threw e s1)
      with r Some show ?thesis
        by (simp add: packageLoadAll_def r_def [symmetric])
    qed
  qed
qed

lemma lazyFilters_frame:
  "resolved (lazyExclude (lazyInclude s)) = resolved s"
  by (simp add: lazyExclude_def lazyInclude_def Let_def)

lemma lazyTry_parsed:
  assumes "isParsed (knownNodesFile w)" "isParsed (knownCredentialsFile w)"
    "isParsed (typesNodesFile w)" "isParsed (typesCredentialsFile w)"
  shows "returns (lazyTry w s) \<and> isLazyLoaded (stateOf (lazyTry w s)) \<and>
         resolved (stateOf (lazyTry w s)) = resolved s"
proof -
  obtain kn where kn: "knownNodesFile w = Parsed kn" using assms(1) by (cases "knownNodesFile w") auto
  obtain kc where kc: "knownCredentialsFile w = Parsed kc" using assms(2) by (cases "knownCredentialsFile w") auto
  obtain tn where tn: "typesNodesFile w = Parsed tn" using assms(3) by (cases "typesNodesFile w") auto
  obtain tc where tc: "typesCredentialsFile w = Parsed tc" using assms(4) by (cases "typesCredentialsFile w") auto
  show ?thesis
    by (simp add: lazyTry_def readJSON_def kn kc tn tc Let_def lazyFilters_frame)
qed

lemma lazyTry_failed:
  assumes "\<not> (isParsed (knownNodesFile w) \<and> isParsed (knownCredentialsFile w) \<and>
    isParsed (typesNodesFile w) \<and> isParsed (typesCredentialsFile w))"
  shows "\<not> returns (lazyTry w s) \<and> isLazyLoaded (stateOf (lazyTry w s)) = isLazyLoaded s"
  using assms
  by (cases "knownNodesFile w"; cases "knownCredentialsFile w"; cases "typesNodesFile w";
      cases "typesCredentialsFile w")
     (simp_all add: lazyTry_def readJSON_def Let_def)

text \<open>
  C9. When the four manifest files are read and parsed, the lazy \<open>loadAll\<close> returns
  with \<open>isLazyLoaded\<close> set and without a single call of the component resolver; when one
  of them fails, \<open>isLazyLoaded\<close> is what it was before the call, which is false on a
  loader that has not been lazily loaded before.
\<close>

theorem lazyLoadAll_flag:
  "(isParsed (knownNodesFile w) \<and> isParsed (knownCredentialsFile w) \<and>
    isParsed (typesNodesFile w) \<and> isParsed (typesCredentialsFile w)
    \<longrightarrow> returns (lazyLoadAll w s) \<and> isLazyLoaded (stateOf (lazyLoadAll w s)) \<and>
        resolved (stateOf (lazyLoadAll w s)) = resolved s) \<and>
   (\<not> (isParsed (knownNodesFile w) \<and> isParsed (knownCredentialsFile w) \<and>
       isParsed (typesNodesFile w) \<and> isParsed (typesCredentialsFile w))
    \<longrightarrow> isLazyLoaded (stateOf (lazyLoadAll w s)) = isLazyLoaded s)"
proof (intro conjI impI)
  assume a: "isParsed (knownNodesFile w) \<and> isParsed (knownCredentialsFile w) \<and>
    isParsed (typesNodesFile w) \<and> isParsed (typesCredentialsFile w)"
  then have t: "returns (lazyTry w s) \<and> isLazyLoaded (stateOf (lazyTry w s)) \<and>
         resolved (stateOf (lazyTry w s)) = resolved s"
    by (intro lazyTry_parsed) auto
  then obtain s' where "lazyTry w s = Done s'" by (cases "lazyTry w s") auto
  with t show "returns (lazyLoadAll w s)" "isLazyLoaded (stateOf (lazyLoadAll w s))"
    "resolved (stateOf (lazyLoadAll w s)) = resolved s"
    by (simp_all add: lazyLoadAll_def)
next
  assume "\<not> (isParsed (knownNodesFile w) \<and> isParsed (knownCredentialsFile w) \<and>
       isParsed (typesNodesFile w) \<and> isParsed (typesCredentialsFile w))"
  then have t: "\<not> returns (lazyTry w s) \<and> isLazyLoaded (stateOf (lazyTry w s)) = isLazyLoaded s"
    by (rule lazyTry_failed)
  then obtain e s' where "lazyTry w s = Threw e s'" by (cases "lazyTry w s") auto
  with t packageLoadAll_isLazyLoaded [of w s']
  show "isLazyLoaded (stateOf (lazyLoadAll w s)) = isLazyLoaded s"
    by (simp add: lazyLoadAll_def)
qed

theorem lazyLoadAll_flag_witness:
  "(isParsed (knownNodesFile manifestWorld) \<and> isParsed (knownCredentialsFile manifestWorld) \<and>
    isParsed (typesNodesFile manifestWorld) \<and> isParsed (typesCredentialsFile manifestWorld)) \<and>
   (returns (lazyLoadAll manifestWorld (testPackageLoader [] [])) \<and>
    isLazyLoaded (stateOf (lazyLoadAll manifestWorld (testPackageLoader [] []))) \<and>
    resolved (stateOf (lazyLoadAll manifestWorld (testPackageLoader [] []))) = []) \<and>
   \<not> (isParsed (knownNodesFile partialWorld) \<and> isParsed (knownCredentialsFile partialWorld) \<and>
    isParsed (typesNodesFile partialWorld) \<and> isParsed (typesCredentialsFile partialWorld)) \<and>
   \<not> isLazyLoaded (stateOf (lazyLoadAll partialWorld (testPackageLoader [] [])))"
  using lazyLoadAll_flag [of manifestWorld "testPackageLoader [] []"]
    lazyLoadAll_flag [of partialWorld "testPackageLoader [] []"]
  by (simp add: manifestWorld_def partialWorld_def testWorld_def testPackageLoader_def
        newDirectoryLoader_def directoryLoader.defs)

section \<open>Versions of plain nodes\<close>

lemma addCodex_name: "name (addCodex w s d p) = name d"
  by (simp add: addCodex_def Let_def split: option.splits)

lemma addCodex_description:
  fixes d :: nodeTypeDescription
  shows "version (addCodex w s d p) = version d \<and> credentials (addCodex w s d p) = credentials d"
  by (simp add: addCodex_def Let_def split: option.splits)

lemma nodeName_addCodexNode: "nodeName (addCodexNode w s t p) = nodeName t"
  by (cases t) (simp_all add: addCodexNode_def nodeName_def addCodex_name)


lemma fixIconPaths_description:
  fixes d :: nodeTypeDescription
  shows "version (fixIconPaths s d p) = version d \<and> credentials (fixIconPaths s d p) = credentials d"
  by (simp add: fixIconPaths_def split: option.splits icon.splits)

lemma addLoadOptionsMethods_description:
  "name (description (addLoadOptionsMethods n)) = name (description n) \<and>
   version (description (addLoadOptionsMethods n)) = version (description n) \<and>
   credentials (description (addLoadOptionsMethods n)) = credentials (description n) \<and>
   executeSingle (addLoadOptionsMethods n) = executeSingle n"
  by (simp add: addLoadOptionsMethods_def split: option.splits)

text \<open>What \<open>loadNodeFromFile\<close> does with a plain node that the filter keeps.\<close>

lemma loadNodeFromFile_plain:
  assumes "loadClass (loadNodeClass w) w s p = Inr (Plain n)" "kept s (name (description n))"
  shows "loadNodeFromFile w s p =
     Done (recordNode (s\<lparr>resolved := resolved s @ [p]\<rparr>)
        (Plain (addLoadOptionsMethods
           ((n\<lparr>description := addCodex w (s\<lparr>resolved := resolved s @ [p]\<rparr>) (description n) p\<rparr>)
              \<lparr>description := fixIconPaths (s\<lparr>resolved := resolved s @ [p]\<rparr>)
                  (addCodex w (s\<lparr>resolved := resolved s @ [p]\<rparr>) (description n) p) p\<rparr>)))
        p (name (description n))
        (case version (description n) of
           Multiple vs \<Rightarrow> if vs = [] then None else Some (last vs)
         | Single x \<Rightarrow> Some x))"
  using assms
  by (auto simp add: loadNodeFromFile_def Let_def kept_def addCodexNode_def nodeName_def addCodex_name
        addLoadOptionsMethods_description fixIconPaths_description addCodex_description)

lemma last_sorted_Max:
  fixes vs :: "version list"
  assumes "sorted vs" "vs \<noteq> []"
  shows "last vs = Max (set vs)"
proof -
  have split: "butlast vs @ [last vs] = vs" using assms(2) by simp
  then have "sorted (butlast vs @ [last vs])" using assms(1) by simp
  then have le: "\<forall>x\<in>set (butlast vs). x \<le> last vs" by (simp add: sorted_append)
  have "set vs = set (butlast vs @ [last vs])" using split by simp
  then have "\<forall>x\<in>set vs. x \<le> last vs" using le by auto
  then show ?thesis
    using assms(2) by (intro Max_eqI [symmetric]) auto
qed

text \<open>
  C7, as the code has it. A plain node that the filter keeps is recorded in
  \<open>loadedNodes\<close> with its declared version when that is a single number, and with the
  last value of the list when it is a non-empty list; the last value is the highest one
  when the list is in ascending order.
\<close>

theorem plain_node_version:
  "(loadClass (loadNodeClass w) w s p = Inr (Plain n) \<and> kept s (name (description n)) \<and>
    version (description n) = Single x
    \<longrightarrow> returns (loadNodeFromFile w s p) \<and>
        loadedNodes (stateOf (loadNodeFromFile w s p)) =
          loadedNodes s @ [(name (description n), Some x)]) \<and>
   (loadClass (loadNodeClass w) w s p = Inr (Plain n) \<and> kept s (name (description n)) \<and>
    version (description n) = Multiple vs \<and> vs \<noteq> []
    \<longrightarrow> returns (loadNodeFromFile w s p) \<and>
        loadedNodes (stateOf (loadNodeFromFile w s p)) =
          loadedNodes s @ [(name (description n), Some (last vs))] \<and>
        (sorted vs \<longrightarrow> last vs = Max (set vs)))"
proof (intro conjI impI)
  assume a: "loadClass (loadNodeClass w) w s p = Inr (Plain n) \<and> kept s (name (description n)) \<and>
    version (description n) = Single x"
  then have l: "loadClass (loadNodeClass w) w s p = Inr (Plain n)" and k: "kept s (name (description n))"
    by auto
  show "returns (loadNodeFromFile w s p)"
    by (simp add: loadNodeFromFile_plain [OF l k])
  show "loadedNodes (stateOf (loadNodeFromFile w s p)) =
          loadedNodes s @ [(name (description n), Some x)]"
    using a by (simp add: loadNodeFromFile_plain [OF l k] recordNode_def)
next
  assume a: "loadClass (loadNodeClass w) w s p = Inr (Plain n) \<and> kept s (name (description n)) \<and>
    version (description n) = Multiple vs \<and> vs \<noteq> []"
  then have l: "loadClass (loadNodeClass w) w s p = Inr (Plain n)" and k: "kept s (name (description n))"
    by auto
  show "returns (loadNodeFromFile w s p)"
    by (simp add: loadNodeFromFile_plain [OF l k])
  show "loadedNodes (stateOf (loadNodeFromFile w s p)) =
          loadedNodes s @ [(name (description n), Some (last vs))]"
    using a by (simp add: loadNodeFromFile_plain [OF l k] recordNode_def)
  assume "sorted vs"
  then show "last vs = Max (set vs)" using a by (intro last_sorted_Max) auto
qed

theorem plain_node_version_witness:
  "(loadClass (loadNodeClass (worldOf (Plain (nodeWithVersions (Single 2)))))
      (worldOf (Plain (nodeWithVersions (Single 2)))) (testCustomLoader [] [])
      ''dist/Node1/Node1.node.js'' = Inr (Plain (nodeWithVersions (Single 2))) \<and>
    kept (testCustomLoader [] []) (name (description (nodeWithVersions (Single 2)))) \<and>
    version (description (nodeWithVersions (Single 2))) = Single 2) \<and>
   loadedNodes (stateOf (loadNodeFromFile (worldOf (Plain (nodeWithVersions (Single 2))))
      (testCustomLoader [] []) ''dist/Node1/Node1.node.js'')) = [(''node1'', Some 2)] \<and>
   (loadClass (loadNodeClass (worldOf (Plain (nodeWithVersions (Multiple [1, 2, 3])))))
      (worldOf (Plain (nodeWithVersions (Multiple [1, 2, 3])))) (testCustomLoader [] [])
      ''dist/Node1/Node1.node.js'' = Inr (Plain (nodeWithVersions (Multiple [1, 2, 3]))) \<and>
    kept (testCustomLoader [] []) (name (description (nodeWithVersions (Multiple [1, 2, 3])))) \<and>
    version (description (nodeWithVersions (Multiple [1, 2, 3]))) = Multiple [1, 2, 3] \<and>
    [1, 2, 3 :: version] \<noteq> [] \<and> sorted [1, 2, 3 :: version]) \<and>
   loadedNodes (stateOf (loadNodeFromFile (worldOf (Plain (nodeWithVersions (Multiple [1, 2, 3]))))
      (testCustomLoader [] []) ''dist/Node1/Node1.node.js'')) = [(''node1'', Some 3)] \<and>
   Max (set [1, 2, 3 :: version]) = 3"
  using
    plain_node_version [of "worldOf (Plain (nodeWithVersions (Single 2)))" "testCustomLoader [] []"
      "''dist/Node1/Node1.node.js''" "nodeWithVersions (Single 2)" 2 "[1]"]
    plain_node_version [of "worldOf (Plain (nodeWithVersions (Multiple [1, 2, 3])))" "testCustomLoader [] []"
      "''dist/Node1/Node1.node.js''" "nodeWithVersions (Multiple [1, 2, 3])" 1 "[1, 2, 3]"]
  by (simp add: worldOf_def loadClass_def nodeWithVersions_def createNode_def kept_def
        testCustomLoader_def newCustomDirectoryLoader_def newDirectoryLoader_def)

theorem highest_version_counterexample:
  "loadedNodes (stateOf (loadNodeFromFile (worldOf (Plain (nodeWithVersions (Multiple [2, 1]))))
      (testCustomLoader [] []) ''dist/Node1/Node1.node.js'')) = [(''node1'', Some 1)] \<and>
   Max (set [2, 1 :: version]) = 2"
  by code_simp

section \<open>Retired versions\<close>

text \<open>What \<open>loadNodeFromFile\<close> does with a versioned node whose current version is retired.\<close>

lemma versions_frame:
  "currentVersion (fixVersionIcons s v p) = currentVersion v \<and>
   baseDescription (fixVersionIcons s v p) = baseDescription v \<and>
   currentVersion (addVersionLoadOptions v) = currentVersion v \<and>
   baseDescription (addVersionLoadOptions v) = baseDescription v \<and>
   currentVersion (addCurrentCodex w s v p) = currentVersion v \<and>
   baseDescription (addCurrentCodex w s v p) = baseDescription v"
  by (simp add: fixVersionIcons_def addVersionLoadOptions_def addCurrentCodex_def)







section \<open>The eager loaders\<close>

lemma customLoadAll_eagerLoad:
  "customLoadAll w s =
     eagerLoad w s (glob w ''**/*.node.js'' (directory s)) (glob w ''**/*.credentials.js'' (directory s))"
proof -
  have "directory (stateOf (forEachFile (loadNodeFromFile w) s ps)) = directory s" for ps
    by (rule forEachFile_frame) (simp add: loadNodeFromFile_frame)
  from this [of "glob w ''**/*.node.js'' (directory s)"] show ?thesis
    by (cases "forEachFile (loadNodeFromFile w) s (glob w ''**/*.node.js'' (directory s))")
       (simp_all add: customLoadAll_def eagerLoad_def)
qed

lemma packageLoadAll_eagerLoad:
  "packageLoadAll w s =
     eagerLoad w s (listedNodes (packageJson s)) (listedCredentials (packageJson s))"
  by (simp add: packageLoadAll_def eagerLoad_def listedNodes_def listedCredentials_def
        split: option.splits outcome.splits)

lemma forEachFile_invariant:
  assumes "\<And>s p. P s \<Longrightarrow> P (stateOf (f s p))" and "P s"
  shows "P (stateOf (forEachFile f s ps))"
  using assms(2)
proof (induction ps arbitrary: s)
  case Nil
  then show ?case by simp
next
  case (Cons p ps)
  show ?case
  proof (cases "f s p")
    case (Done s')
    with assms(1) [OF Cons.prems, of p] Cons.IH [of s'] show ?thesis by simp
  next
    case (Threw e s')
    with assms(1) [OF Cons.prems, of p] show ?thesis by simp
  qed
qed

lemma forEachFile_resolved_nodes:
  "forEachFile (loadNodeFromFile w) s ps = Done s1 \<Longrightarrow> resolved s1 = resolved s @ ps"
proof (induction ps arbitrary: s)
  case Nil
  then show ?case by simp
next
  case (Cons p ps)
  then show ?case
    using loadNodeFromFile_frame [of w s p]
    by (cases "loadNodeFromFile w s p") auto
qed

lemma forEachFile_resolved_credentials:
  "forEachFile (loadCredentialFromFile w) s ps = Done s1 \<Longrightarrow> resolved s1 = resolved s @ ps"
proof (induction ps arbitrary: s)
  case Nil
  then show ?case by simp
next
  case (Cons p ps)
  then show ?case
    using loadCredentialFromFile_frame [of w s p]
    by (cases "loadCredentialFromFile w s p") auto
qed

subsection \<open>The reverse index\<close>

lemma entries_addNodesByCredential:
  "entries (addNodesByCredential n cs m) c =
     entries m c @ map (\<lambda>credential. n) (filter (\<lambda>credential. credentialName credential = c) cs)"
  by (induction cs arbitrary: m) (auto simp: entries_def)

lemma addNodesByCredential_nonempty:
  "\<forall>c. m c \<noteq> Some [] \<Longrightarrow> addNodesByCredential n cs m c \<noteq> Some []"
  by (induction cs arbitrary: m) auto

lemma getCredentials_versions:
  assumes "\<And>x. credentials (description (snd (h x))) = credentials (description (snd x))"
  shows "getCredentialsForNode (Versioned (v\<lparr>nodeVersions := map h (nodeVersions v)\<rparr>))
       = getCredentialsForNode (Versioned v)"
  by (simp add: getCredentialsForNode_def case_prod_unfold o_def assms)

lemma getCredentials_baseDescription:
  "getCredentialsForNode (Versioned (v\<lparr>baseDescription := d\<rparr>)) = getCredentialsForNode (Versioned v)"
  by (simp add: getCredentialsForNode_def)

text \<open>What \<open>loadNodeFromFile\<close> does with a node that the filter drops.\<close>

lemma loadNodeFromFile_skipped:
  assumes "loadClass (loadNodeClass w) w s p = Inr loaded" "\<not> kept s (nodeName loaded)"
  shows "loadNodeFromFile w s p = Done (s\<lparr>resolved := resolved s @ [p]\<rparr>)"
  using assms
  by (auto simp add: loadNodeFromFile_def Let_def kept_def nodeName_addCodexNode)

text \<open>What \<open>loadNodeFromFile\<close> does with a versioned node that the filter keeps.\<close>

lemma loadNodeFromFile_versioned:
  assumes "loadClass (loadNodeClass w) w s p = Inr (Versioned v0)"
    and "kept s (name (baseDescription v0))"
  shows "loadNodeFromFile w s p =
     (let s1 = s\<lparr>resolved := resolved s @ [p]\<rparr>;
          v3 = addVersionLoadOptions
                 (fixVersionIcons s1
                    (v0\<lparr>baseDescription :=
                          fixIconPaths s1 (addCodex w s1 (baseDescription v0) p) p\<rparr>) p)
      in case map_of (nodeVersions v3) (currentVersion v0) of
           None \<Rightarrow> Threw TypeError s1
         | Some cur \<Rightarrow>
             if executeSingle cur
             then Threw (ExecuteSingleRemoved (packageName s @ ''.'' @ name (baseDescription v0))) s1
             else Done (recordNode s1 (Versioned (addCurrentCodex w s1 v3 p)) p
                          (name (baseDescription v0)) (Some (currentVersion v0))))"
  using assms
  by (auto simp add: loadNodeFromFile_def Let_def kept_def addCodexNode_def nodeName_def
        addCodex_name versions_frame split: option.splits)

text \<open>A load that returns has either skipped the node or recorded it.\<close>

lemma loadNodeFromFile_Done:
  assumes "loadNodeFromFile w s p = Done s'"
  shows "\<exists>loaded. loadClass (loadNodeClass w) w s p = Inr loaded \<and>
           nodesByCredential s' =
             (if kept s (nodeName loaded)
              then addNodesByCredential (nodeName loaded) (getCredentialsForNode loaded) (nodesByCredential s)
              else nodesByCredential s)"
proof (cases "loadClass (loadNodeClass w) w s p")
  case (Inl e)
  with assms show ?thesis by (simp add: loadNodeFromFile_def Let_def)
next
  case (Inr loaded)
  let ?s = "s\<lparr>resolved := resolved s @ [p]\<rparr>"
  show ?thesis
  proof (cases "kept s (nodeName loaded)")
    case False
    with assms Inr loadNodeFromFile_skipped [of w s p loaded] show ?thesis
      by auto
  next
    case True
    show ?thesis
    proof (cases loaded)
      case (Plain n)
      with True Inr have "loadNodeFromFile w s p =
        Done (recordNode ?s
          (Plain (addLoadOptionsMethods
            ((n\<lparr>description := addCodex w ?s (description n) p\<rparr>)
              \<lparr>description := fixIconPaths ?s (addCodex w ?s (description n) p) p\<rparr>)))
          p (name (description n))
          (case version (description n) of
             Multiple vs \<Rightarrow> if vs = [] then None else Some (last vs)
           | Single x \<Rightarrow> Some x))"
        by (intro loadNodeFromFile_plain) (auto simp: nodeName_def)
      with assms True Inr Plain show ?thesis
        by (auto simp add: recordNode_def nodeName_def getCredentialsForNode_def
              addLoadOptionsMethods_description fixIconPaths_description addCodex_description)
    next
      case (Versioned v0)
      define v3 where "v3 = addVersionLoadOptions
         (fixVersionIcons ?s
            (v0\<lparr>baseDescription := fixIconPaths ?s (addCodex w ?s (baseDescription v0) p) p\<rparr>) p)"
      have k: "kept s (name (baseDescription v0))"
        using True Versioned by (simp add: nodeName_def)
      have s': "s' = recordNode ?s (Versioned (addCurrentCodex w ?s v3 p)) p
                  (name (baseDescription v0)) (Some (currentVersion v0))"
        using assms loadNodeFromFile_versioned [OF Inr [unfolded Versioned] k]
        by (auto simp add: Let_def v3_def split: option.splits if_splits)
      have "getCredentialsForNode (Versioned (addCurrentCodex w ?s v3 p))
            = getCredentialsForNode (Versioned v3)"
        unfolding addCurrentCodex_def
        by (rule getCredentials_versions) (auto simp: addCodex_description)
      also have "\<dots> = getCredentialsForNode
          (Versioned (fixVersionIcons ?s
             (v0\<lparr>baseDescription := fixIconPaths ?s (addCodex w ?s (baseDescription v0) p) p\<rparr>) p))"
        unfolding v3_def addVersionLoadOptions_def
        by (rule getCredentials_versions) (auto simp: addLoadOptionsMethods_description)
      also have "\<dots> = getCredentialsForNode
          (Versioned (v0\<lparr>baseDescription := fixIconPaths ?s (addCodex w ?s (baseDescription v0) p) p\<rparr>))"
        unfolding fixVersionIcons_def
        by (rule getCredentials_versions) (auto simp: fixIconPaths_description)
      also have "\<dots> = getCredentialsForNode (Versioned v0)"
        by (simp add: getCredentials_baseDescription)
      finally have creds: "getCredentialsForNode (Versioned (addCurrentCodex w ?s v3 p))
          = getCredentialsForNode loaded"
        using Versioned by simp
      show ?thesis
        using Inr True Versioned creds
        by (simp add: s' recordNode_def nodeName_def)
    qed
  qed
qed

lemma acceptedNodes_Cons:
  "acceptedNodes w s (p # ps) =
     (case loadClass (loadNodeClass w) w s p of
        Inr loaded \<Rightarrow> if kept s (nodeName loaded) then loaded # acceptedNodes w s ps
                      else acceptedNodes w s ps
      | Inl e \<Rightarrow> acceptedNodes w s ps)"
  by (simp add: acceptedNodes_def List.map_filter_simps split: sum.splits)

lemma acceptedNodes_cong:
  assumes "directory s' = directory s" "includeNodes s' = includeNodes s"
    "excludeNodes s' = excludeNodes s" "packageName s' = packageName s"
  shows "acceptedNodes w s' ps = acceptedNodes w s ps"
proof -
  have k: "kept s' = kept s"
    using assms by (simp add: kept_def fun_eq_iff)
  have l: "loadClass (loadNodeClass w) w s' = loadClass (loadNodeClass w) w s"
    using assms by (simp add: loadClass_def resolvePath_def fun_eq_iff)
  show ?thesis
    unfolding acceptedNodes_def k l ..
qed

lemma pushedNodes_Cons:
  "pushedNodes c (t # ts) =
     map (\<lambda>credential. nodeName t)
       (filter (\<lambda>credential. credentialName credential = c) (getCredentialsForNode t))
     @ pushedNodes c ts"
  by (simp add: pushedNodes_def)

text \<open>The reverse index after the loop over the node files, when the loop returns.\<close>

lemma forEachFile_nodesByCredential:
  assumes "forEachFile (loadNodeFromFile w) s ps = Done s1"
  shows "entries (nodesByCredential s1) c =
           entries (nodesByCredential s) c @ pushedNodes c (acceptedNodes w s ps) \<and>
         ((\<forall>k. nodesByCredential s k \<noteq> Some []) \<longrightarrow> (\<forall>k. nodesByCredential s1 k \<noteq> Some []))"
  using assms
proof (induction ps arbitrary: s)
  case Nil
  then show ?case by (simp add: acceptedNodes_def pushedNodes_def List.map_filter_simps)
next
  case (Cons p ps)
  from Cons.prems obtain s' where step: "loadNodeFromFile w s p = Done s'"
    and rest: "forEachFile (loadNodeFromFile w) s' ps = Done s1"
    by (cases "loadNodeFromFile w s p") auto
  from loadNodeFromFile_Done [OF step] obtain loaded where
    l: "loadClass (loadNodeClass w) w s p = Inr loaded" and
    n: "nodesByCredential s' =
         (if kept s (nodeName loaded)
          then addNodesByCredential (nodeName loaded) (getCredentialsForNode loaded) (nodesByCredential s)
          else nodesByCredential s)"
    by auto
  have fr: "directory s' = directory s" "includeNodes s' = includeNodes s"
    "excludeNodes s' = excludeNodes s" "packageName s' = packageName s"
    using loadNodeFromFile_frame [of w s p] step by simp_all
  have acc: "acceptedNodes w s' ps = acceptedNodes w s ps"
    using fr by (rule acceptedNodes_cong)
  have e: "entries (nodesByCredential s') c =
      entries (nodesByCredential s) c @
      pushedNodes c (if kept s (nodeName loaded) then [loaded] else [])"
    by (simp add: n entries_addNodesByCredential pushedNodes_def)
  have i: "(\<forall>k. nodesByCredential s k \<noteq> Some []) \<longrightarrow> (\<forall>k. nodesByCredential s' k \<noteq> Some [])"
    by (simp add: n addNodesByCredential_nonempty)
  from Cons.IH [OF rest] i e acc l show ?case
    by (auto simp add: acceptedNodes_Cons pushedNodes_Cons pushedNodes_def)
qed

lemma index_of_entries:
  "m c \<noteq> Some [] \<Longrightarrow> m c = (case entries m c of [] \<Rightarrow> None | n # ns \<Rightarrow> Some (n # ns))"
  by (cases "m c") (auto simp: entries_def split: list.splits)

text \<open>
  Every entry that the loop over the credential files writes to \<open>known.credentials\<close>
  carries the reverse index as the node loop left it.
\<close>

lemma forEachFile_supportedNodes:
  assumes "knownCredentials (known (stateOf (forEachFile (loadCredentialFromFile w) s1 ps))) k = Some details"
  shows "knownCredentials (known s1) k = Some details \<or>
         supportedNodes details = nodesByCredential s1 k"
proof -
  define P where "P = (\<lambda>t :: 'a directoryLoader_scheme.
     nodesByCredential t = nodesByCredential s1 \<and>
     (\<forall>k details. knownCredentials (known t) k = Some details \<longrightarrow>
        knownCredentials (known s1) k = Some details \<or>
        supportedNodes details = nodesByCredential s1 k))"
  have step: "P (stateOf (loadCredentialFromFile w t p))" if "P t" for t p
    using that
    by (auto simp add: P_def loadCredentialFromFile_def Let_def split: sum.splits)
  have "P s1" by (simp add: P_def)
  with step have "P (stateOf (forEachFile (loadCredentialFromFile w) s1 ps))"
    by (rule forEachFile_invariant)
  with assms show ?thesis by (auto simp: P_def)
qed

lemma forEachFile_nodes_knownCredentials:
  "knownCredentials (known (stateOf (forEachFile (loadNodeFromFile w) s ps))) = knownCredentials (known s)"
  by (rule forEachFile_frame) (simp add: loadNodeFromFile_frame)

text \<open>The two loops together, on a loader with no credential and no reverse index yet.\<close>

lemma eagerLoad_supportedNodes:
  assumes "nodesByCredential s = Map.empty" "knownCredentials (known s) = Map.empty"
    and "knownCredentials (known (stateOf (eagerLoad w s nodePaths credentialPaths))) k = Some details"
  shows "supportedNodes details =
     (case pushedNodes k (acceptedNodes w s nodePaths) of
        [] \<Rightarrow> None
      | n # ns \<Rightarrow> Some (n # ns))"
proof (cases "forEachFile (loadNodeFromFile w) s nodePaths")
  case (Threw e s1)
  with forEachFile_nodes_knownCredentials [of w s nodePaths] assms show ?thesis
    by (simp add: eagerLoad_def)
next
  case (Done s1)
  have kc: "knownCredentials (known s1) = Map.empty"
    using forEachFile_nodes_knownCredentials [of w s nodePaths] Done assms(2) by simp
  from forEachFile_nodesByCredential [OF Done, of k] assms(1)
  have e: "entries (nodesByCredential s1) k = pushedNodes k (acceptedNodes w s nodePaths)"
    and ne: "nodesByCredential s1 k \<noteq> Some []"
    by (simp_all add: entries_def)
  from assms(3) Done
  have "knownCredentials (known (stateOf (forEachFile (loadCredentialFromFile w) s1 credentialPaths))) k
        = Some details"
    by (simp add: eagerLoad_def)
  from forEachFile_supportedNodes [OF this] kc
  have "supportedNodes details = nodesByCredential s1 k" by simp
  with index_of_entries [of "nodesByCredential s1" k] ne e show ?thesis by simp
qed

lemma set_uniqByFrom: "f ` set (uniqByFrom f seen xs) = f ` set xs - set seen"
  by (induction xs arbitrary: seen) auto

lemma names_getCredentialsForNode:
  "credentialName ` set (getCredentialsForNode t) = set (declaredCredentials t)"
proof (cases t)
  case (Plain n)
  then show ?thesis by (simp add: getCredentialsForNode_def declaredCredentials_def)
next
  case (Versioned v)
  have u: "credentialName ` set (uniqBy credentialName xs) = credentialName ` set xs" for xs
    by (simp add: uniqBy_def set_uniqByFrom)
  show ?thesis
    unfolding Versioned getCredentialsForNode_def declaredCredentials_def node.case u
    by (simp add: image_UN case_prod_unfold)
qed

lemma set_pushedNodes:
  "set (pushedNodes c ts) = nodeName ` {t \<in> set ts. declares t c}"
proof (induction ts)
  case Nil
  show ?case by (simp add: pushedNodes_def)
next
  case (Cons t ts)
  have d: "(\<exists>x\<in>set (getCredentialsForNode t). credentialName x = c) = declares t c"
    unfolding declares_def names_getCredentialsForNode [symmetric] by auto
  have one: "set (map (\<lambda>credential. nodeName t)
                   (filter (\<lambda>credential. credentialName credential = c)
                      (getCredentialsForNode t))) =
             (if declares t c then {nodeName t} else {})"
    unfolding d [symmetric] by auto
  have "set (pushedNodes c (t # ts)) =
          (if declares t c then {nodeName t} else {}) \<union> set (pushedNodes c ts)"
    unfolding pushedNodes_Cons set_append one ..
  also have "\<dots> = nodeName ` {u \<in> set (t # ts). declares u c}"
    unfolding Cons.IH by auto
  finally show ?case .
qed

lemma eagerLoad_resolved:
  assumes "returns (eagerLoad w s nodePaths credentialPaths)"
  shows "resolved (stateOf (eagerLoad w s nodePaths credentialPaths)) =
         resolved s @ nodePaths @ credentialPaths"
proof (cases "forEachFile (loadNodeFromFile w) s nodePaths")
  case (Threw e s1)
  with assms show ?thesis by (simp add: eagerLoad_def)
next
  case (Done s1)
  note n = forEachFile_resolved_nodes [OF Done]
  show ?thesis
  proof (cases "forEachFile (loadCredentialFromFile w) s1 credentialPaths")
    case (Threw e s2)
    with assms Done show ?thesis by (simp add: eagerLoad_def)
  next
    case inner: (Done s2)
    from forEachFile_resolved_credentials [OF inner] n Done inner show ?thesis
      by (simp add: eagerLoad_def)
  qed
qed

section \<open>Credentials and the nodes that support them\<close>

lemma newCustomDirectoryLoader_fresh:
  "nodesByCredential (newCustomDirectoryLoader dir excl incl) = Map.empty \<and>
   knownCredentials (known (newCustomDirectoryLoader dir excl incl)) = Map.empty \<and>
   knownNodes (known (newCustomDirectoryLoader dir excl incl)) = Map.empty \<and>
   nodeTypes (newCustomDirectoryLoader dir excl incl) = Map.empty \<and>
   loadedNodes (newCustomDirectoryLoader dir excl incl) = [] \<and>
   typesNodes (types (newCustomDirectoryLoader dir excl incl)) = [] \<and>
   directory (newCustomDirectoryLoader dir excl incl) = dir \<and>
   excludeNodes (newCustomDirectoryLoader dir excl incl) = excl \<and>
   includeNodes (newCustomDirectoryLoader dir excl incl) = incl \<and>
   packageName (newCustomDirectoryLoader dir excl incl) = ''CUSTOM''"
  by (simp add: newCustomDirectoryLoader_def newDirectoryLoader_def)

lemma newPackageDirectoryLoader_fresh:
  assumes "newPackageDirectoryLoader w dir excl incl = Inr p0"
  shows "nodesByCredential p0 = Map.empty \<and>
   knownCredentials (known p0) = Map.empty \<and>
   knownNodes (known p0) = Map.empty \<and>
   nodeTypes p0 = Map.empty \<and> loadedNodes p0 = [] \<and> typesNodes (types p0) = [] \<and>
   directory p0 = dir \<and> excludeNodes p0 = excl \<and> includeNodes p0 = incl \<and>
   packageName p0 = jsonName (packageJson p0) \<and> \<not> isLazyLoaded p0"
  using assms
  by (auto simp add: newPackageDirectoryLoader_def newDirectoryLoader_def
        directoryLoader.defs packageDirectoryLoader.defs split: sum.splits)

text \<open>
  Both eager loaders resolve the node files first and the credential files after them.
  On a newly built loader, the \<open>supportedNodes\<close> of every entry of \<open>known.credentials\<close>
  is what the node loop has pushed for the credential: the names of the accepted nodes
  of the run that declare it, in the order of their files, and it is absent when no
  accepted node declares it.
\<close>

lemma supportedNodes_of_new_loader:
  "(knownCredentials (known (stateOf (customLoadAll w (newCustomDirectoryLoader dir excl incl)))) k
      = Some details
    \<longrightarrow> supportedNodes details =
          (case pushedNodes k
                  (acceptedNodes w (newCustomDirectoryLoader dir excl incl)
                     (glob w ''**/*.node.js'' dir)) of
             [] \<Rightarrow> None
           | n # ns \<Rightarrow> Some (n # ns))) \<and>
   (newPackageDirectoryLoader w dir excl incl = Inr p0 \<and>
    knownCredentials (known (stateOf (packageLoadAll w p0))) k = Some details
    \<longrightarrow> supportedNodes details =
          (case pushedNodes k (acceptedNodes w p0 (listedNodes (packageJson p0))) of
             [] \<Rightarrow> None
           | n # ns \<Rightarrow> Some (n # ns))) \<and>
   set (pushedNodes k ts) = nodeName ` {t \<in> set ts. declares t k} \<and>
   (returns (customLoadAll w c1)
    \<longrightarrow> resolved (stateOf (customLoadAll w c1)) =
          resolved c1 @ glob w ''**/*.node.js'' (directory c1) @
          glob w ''**/*.credentials.js'' (directory c1)) \<and>
   (returns (packageLoadAll w p1)
    \<longrightarrow> resolved (stateOf (packageLoadAll w p1)) =
          resolved p1 @ listedNodes (packageJson p1) @ listedCredentials (packageJson p1))"
proof (intro conjI impI)
  let ?c = "newCustomDirectoryLoader dir excl incl"
  assume "knownCredentials (known (stateOf (customLoadAll w ?c))) k = Some details"
  then have "knownCredentials (known (stateOf (eagerLoad w ?c (glob w ''**/*.node.js'' dir)
      (glob w ''**/*.credentials.js'' dir)))) k = Some details"
    by (simp add: customLoadAll_eagerLoad newCustomDirectoryLoader_fresh)
  then show "supportedNodes details =
          (case pushedNodes k (acceptedNodes w ?c (glob w ''**/*.node.js'' dir)) of
             [] \<Rightarrow> None
           | n # ns \<Rightarrow> Some (n # ns))"
    by (intro eagerLoad_supportedNodes) (simp_all add: newCustomDirectoryLoader_fresh)
next
  assume a: "newPackageDirectoryLoader w dir excl incl = Inr p0 \<and>
    knownCredentials (known (stateOf (packageLoadAll w p0))) k = Some details"
  then have f: "nodesByCredential p0 = Map.empty" "knownCredentials (known p0) = Map.empty"
    using newPackageDirectoryLoader_fresh [of w dir excl incl p0] by simp_all
  from a have "knownCredentials (known (stateOf (eagerLoad w p0 (listedNodes (packageJson p0))
      (listedCredentials (packageJson p0))))) k = Some details"
    by (simp add: packageLoadAll_eagerLoad)
  with f show "supportedNodes details =
          (case pushedNodes k (acceptedNodes w p0 (listedNodes (packageJson p0))) of
             [] \<Rightarrow> None
           | n # ns \<Rightarrow> Some (n # ns))"
    by (intro eagerLoad_supportedNodes)
next
  show "set (pushedNodes k ts) = nodeName ` {t \<in> set ts. declares t k}"
    by (rule set_pushedNodes)
next
  assume "returns (customLoadAll w c1)"
  then show "resolved (stateOf (customLoadAll w c1)) =
          resolved c1 @ glob w ''**/*.node.js'' (directory c1) @
          glob w ''**/*.credentials.js'' (directory c1)"
    by (simp add: customLoadAll_eagerLoad eagerLoad_resolved)
next
  assume "returns (packageLoadAll w p1)"
  then show "resolved (stateOf (packageLoadAll w p1)) =
          resolved p1 @ listedNodes (packageJson p1) @ listedCredentials (packageJson p1)"
    by (simp add: packageLoadAll_eagerLoad eagerLoad_resolved)
qed


text \<open>
  C10. The test suite's custom run, \<open>reset\<close>, and a second run. The second run accepts
  \<open>node1\<close> and \<open>node2\<close>, of which \<open>node1\<close> declares \<open>credential1\<close>, but the
  \<open>supportedNodes\<close> of \<open>credential1\<close> lists \<open>node1\<close> twice: the list of the first run is
  still in \<open>nodesByCredential\<close>. When \<open>node1\<close> no longer declares the credential at the
  second run, no accepted node of that run declares it, and \<open>supportedNodes\<close> is the list
  of the first run where it should be absent.
\<close>

theorem rerun_keeps_old_supportedNodes:
  "returns (customLoadAll testWorld (testCustomLoader [] [])) \<and>
   returns (customLoadAll testWorld
     (reset (stateOf (customLoadAll testWorld (testCustomLoader [] []))))) \<and>
   loadedNodes (stateOf (customLoadAll testWorld
     (reset (stateOf (customLoadAll testWorld (testCustomLoader [] [])))))) =
     [(''node1'', Some 1), (''node2'', Some 1)] \<and>
   map nodeName
     (filter (\<lambda>t. declares t ''credential1'')
        (acceptedNodes testWorld
           (reset (stateOf (customLoadAll testWorld (testCustomLoader [] []))))
           (glob testWorld ''**/*.node.js'' ''/not/a/real/path''))) = [''node1''] \<and>
   map_option supportedNodes
     (knownCredentials
        (known (stateOf (customLoadAll testWorld
           (reset (stateOf (customLoadAll testWorld (testCustomLoader [] [])))))))
        ''credential1'') = Some (Some [''node1'', ''node1'']) \<and>
   returns (customLoadAll undeclaringWorld
     (reset (stateOf (customLoadAll testWorld (testCustomLoader [] []))))) \<and>
   filter (\<lambda>t. declares t ''credential1'')
     (acceptedNodes undeclaringWorld
        (reset (stateOf (customLoadAll testWorld (testCustomLoader [] []))))
        (glob undeclaringWorld ''**/*.node.js'' ''/not/a/real/path'')) = [] \<and>
   map_option supportedNodes
     (knownCredentials
        (known (stateOf (customLoadAll undeclaringWorld
           (reset (stateOf (customLoadAll testWorld (testCustomLoader [] [])))))))
        ''credential1'') = Some (Some [''node1''])"
  by code_simp

section \<open>Filters\<close>

























section \<open>Reset, fallback and the lazy filters\<close>

text \<open>
  C1. \<open>reset\<close> assigns five fields and leaves \<open>nodesByCredential\<close> and \<open>isLazyLoaded\<close>
  as they are (lemma \<open>reset_fields\<close>). After the test suite's custom run the reverse
  index still holds \<open>credential1\<close> once \<open>reset\<close> has run, where a new loader has no
  entry; after a lazy run \<open>isLazyLoaded\<close> is still true, where a new loader has false.
\<close>

theorem reset_keeps_reverse_index:
  "returns (customLoadAll testWorld (testCustomLoader [] [])) \<and>
   nodesByCredential (reset (stateOf (customLoadAll testWorld (testCustomLoader [] []))))
     ''credential1'' = Some [''node1''] \<and>
   nodesByCredential (testCustomLoader [] []) ''credential1'' = None \<and>
   returns (lazyLoadAll manifestWorld (testPackageLoader [] [])) \<and>
   isLazyLoaded (reset (stateOf (lazyLoadAll manifestWorld (testPackageLoader [] [])))) \<and>
   \<not> isLazyLoaded (testPackageLoader [] [])"
  by code_simp

text \<open>
  C2. The test suite's custom run, then \<open>reset\<close>, then the same run again: the second
  run finds the reverse index of the first, so \<open>node1\<close> is listed twice for
  \<open>credential1\<close>, in \<open>nodesByCredential\<close> and in the \<open>supportedNodes\<close> of the credential,
  where the first run lists it once.
\<close>

theorem rediscovery_repeats_nodes:
  "returns (customLoadAll testWorld (testCustomLoader [] [])) \<and>
   nodesByCredential (stateOf (customLoadAll testWorld (testCustomLoader [] []))) ''credential1'' =
     Some [''node1''] \<and>
   map_option supportedNodes
     (knownCredentials (known (stateOf (customLoadAll testWorld (testCustomLoader [] []))))
        ''credential1'') = Some (Some [''node1'']) \<and>
   returns (customLoadAll testWorld
     (reset (stateOf (customLoadAll testWorld (testCustomLoader [] []))))) \<and>
   nodesByCredential
     (stateOf (customLoadAll testWorld
        (reset (stateOf (customLoadAll testWorld (testCustomLoader [] []))))))
     ''credential1'' = Some [''node1'', ''node1''] \<and>
   map_option supportedNodes
     (knownCredentials
        (known (stateOf (customLoadAll testWorld
           (reset (stateOf (customLoadAll testWorld (testCustomLoader [] [])))))))
        ''credential1'') = Some (Some [''node1'', ''node1''])"
  by code_simp

text \<open>When the first manifest cannot be read, the lazy loader does what the eager one does.\<close>

lemma lazyLoadAll_first_read_fails:
  "\<not> isParsed (knownNodesFile w) \<Longrightarrow> lazyLoadAll w s = packageLoadAll w s"
  by (cases "knownNodesFile w") (simp_all add: lazyLoadAll_def lazyTry_def readJSON_def)

text \<open>
  C3. The package of the test suite with three manifest files in place and the fourth
  missing: the lazy loader has assigned the node descriptions of the manifest to
  \<open>types.nodes\<close> before the fourth read fails, and the eager run appends its own, so
  every node is described twice; the eager loader on the same files describes it once.
\<close>

theorem fallback_keeps_partial_state:
  "\<not> isParsed (typesCredentialsFile partialWorld) \<and>
   returns (lazyLoadAll partialWorld (testPackageLoader [] [])) \<and>
   map name (typesNodes (types (stateOf (lazyLoadAll partialWorld (testPackageLoader [] []))))) =
     [''node1'', ''node2'', ''node1'', ''node2''] \<and>
   returns (packageLoadAll partialWorld (testPackageLoader [] [])) \<and>
   map name (typesNodes (types (stateOf (packageLoadAll partialWorld (testPackageLoader [] []))))) =
     [''node1'', ''node2'']"
  by code_simp

text \<open>
  C5. The lazy loader compares the names of the manifest, which are bare, with the
  include and exclude lists, which hold fully-qualified names. With
  \<open>n8n-nodes-testing.node1\<close> excluded it keeps \<open>node1\<close>, which the eager loader drops;
  with only \<open>n8n-nodes-testing.node1\<close> included it drops \<open>node1\<close>, which the eager loader
  keeps.
\<close>

theorem lazy_filter_compares_bare_names:
  "isLazyLoaded (stateOf (lazyLoadAll manifestWorld (testPackageLoader [''n8n-nodes-testing.node1''] []))) \<and>
   knownNodes (known (stateOf (lazyLoadAll manifestWorld
     (testPackageLoader [''n8n-nodes-testing.node1''] [])))) ''node1'' \<noteq> None \<and>
   map name (typesNodes (types (stateOf (lazyLoadAll manifestWorld
     (testPackageLoader [''n8n-nodes-testing.node1''] []))))) = [''node1'', ''node2''] \<and>
   knownNodes (known (stateOf (packageLoadAll manifestWorld
     (testPackageLoader [''n8n-nodes-testing.node1''] [])))) ''node1'' = None \<and>
   map name (typesNodes (types (stateOf (packageLoadAll manifestWorld
     (testPackageLoader [''n8n-nodes-testing.node1''] []))))) = [''node2''] \<and>
   isLazyLoaded (stateOf (lazyLoadAll manifestWorld (testPackageLoader [] [''n8n-nodes-testing.node1'']))) \<and>
   knownNodes (known (stateOf (lazyLoadAll manifestWorld
     (testPackageLoader [] [''n8n-nodes-testing.node1''])))) ''node1'' = None \<and>
   typesNodes (types (stateOf (lazyLoadAll manifestWorld
     (testPackageLoader [] [''n8n-nodes-testing.node1''])))) = [] \<and>
   knownNodes (known (stateOf (packageLoadAll manifestWorld
     (testPackageLoader [] [''n8n-nodes-testing.node1''])))) ''node1'' \<noteq> None \<and>
   map name (typesNodes (types (stateOf (packageLoadAll manifestWorld
     (testPackageLoader [] [''n8n-nodes-testing.node1'']))))) = [''node1'']"
  by code_simp

end
